theory Spec2Isabelle
  imports Complex_Main "HOL-Library.AList"
begin

section \<open>JavaScript values\<close>

text \<open>
  The reducers of BrainDesk are typed in TypeScript, but the values that reach them
  through the import flow and through the storage loaders come straight out of
  \<^verbatim>\<open>JSON.parse\<close> and are only checked with \<^verbatim>\<open>typeof\<close> and
  \<^verbatim>\<open>Array.isArray\<close>. The model therefore works on JavaScript values.
  An object is the list of its own properties in insertion order. A number carries the
  value of a finite double; the code never computes with numbers, it only tests them.
\<close>

datatype jsval =
    JUndefined
  | JNull
  | JBool bool
  | JNum rat
  | JStr string
  | JArr "jsval list"
  | JObj "(string \<times> jsval) list"

text \<open>Thrown values. \<^verbatim>\<open>Error m\<close> is \<^verbatim>\<open>new Error(m)\<close>; the other three are raised
  by the engine (reading a property of null or undefined), by \<^verbatim>\<open>JSON.parse\<close> and by a
  rejected platform promise.\<close>

datatype exn = TypeError | SyntaxError | Rejected | Error string

fun typeof :: "jsval \<Rightarrow> string" where
  "typeof JUndefined = ''undefined''"
| "typeof JNull = ''object''"
| "typeof (JBool b) = ''boolean''"
| "typeof (JNum n) = ''number''"
| "typeof (JStr s) = ''string''"
| "typeof (JArr xs) = ''object''"
| "typeof (JObj fs) = ''object''"

text \<open>Truthiness, as \<^verbatim>\<open>if (v)\<close>, \<^verbatim>\<open>v && ...\<close> and \<^verbatim>\<open>!v\<close> test it.\<close>

fun truthy :: "jsval \<Rightarrow> bool" where
  "truthy JUndefined = False"
| "truthy JNull = False"
| "truthy (JBool b) = b"
| "truthy (JNum n) = (n \<noteq> 0)"
| "truthy (JStr s) = (s \<noteq> [])"
| "truthy (JArr xs) = True"
| "truthy (JObj fs) = True"

fun isArray :: "jsval \<Rightarrow> bool" where
  "isArray (JArr xs) = True"
| "isArray v = False"

fun elements :: "jsval \<Rightarrow> jsval list" where
  "elements (JArr xs) = xs"
| "elements v = []"

fun primitive :: "jsval \<Rightarrow> bool" where
  "primitive (JArr xs) = False"
| "primitive (JObj fs) = False"
| "primitive v = True"

text \<open>
  \<^verbatim>\<open>Set\<close>, \<^verbatim>\<open>Array.prototype.includes\<close> and (no NaN being around) \<^verbatim>\<open>===\<close> compare
  primitives by value and objects by reference. Every object and array of this program is
  created by \<^verbatim>\<open>JSON.parse\<close> or by an object literal and stored once, so two values taken
  from different places are never the same reference: they are equal only when they are
  the same primitive.
\<close>

definition sameValueZero :: "jsval \<Rightarrow> jsval \<Rightarrow> bool" where
  "sameValueZero a b = (primitive a \<and> a = b)"

definition Array_includes :: "jsval list \<Rightarrow> jsval \<Rightarrow> bool" where
  "Array_includes xs v = list_ex (\<lambda>x. sameValueZero x v) xs"

text \<open>A \<^verbatim>\<open>Set\<close> is the list of its members in insertion order; \<^verbatim>\<open>new Set(xs)\<close> adds
  the elements of \<open>xs\<close> one by one, and \<^verbatim>\<open>Array.from\<close> lists the members.\<close>

type_synonym js_set = "jsval list"

definition Set_has :: "js_set \<Rightarrow> jsval \<Rightarrow> bool" where
  "Set_has s v = list_ex (\<lambda>x. sameValueZero x v) s"

definition Set_add :: "js_set \<Rightarrow> jsval \<Rightarrow> js_set" where
  "Set_add s v = (if Set_has s v then s else s @ [v])"

definition new_Set :: "jsval list \<Rightarrow> js_set" where
  "new_Set xs = foldl Set_add [] xs"

definition Array_from :: "js_set \<Rightarrow> jsval list" where
  "Array_from s = s"

text \<open>Property reads. \<open>prop_of\<close> reads an own property of an object, \<open>field\<close> reads a
  property of any value that is neither null nor undefined (the property names this
  program reads are not defined on strings, numbers, booleans or arrays), and \<open>get\<close> is
  the read \<^verbatim>\<open>v.k\<close> in full, which throws on null and undefined.\<close>

definition prop_of :: "(string \<times> jsval) list \<Rightarrow> string \<Rightarrow> jsval" where
  "prop_of fs k = (case map_of fs k of None \<Rightarrow> JUndefined | Some v \<Rightarrow> v)"

fun field :: "jsval \<Rightarrow> string \<Rightarrow> jsval" where
  "field (JObj fs) k = prop_of fs k"
| "field v k = JUndefined"

definition get :: "jsval \<Rightarrow> string \<Rightarrow> exn + jsval" where
  "get v k = (if v = JNull \<or> v = JUndefined then Inl TypeError else Inr (field v k))"

text \<open>The assignment \<^verbatim>\<open>o.k = v\<close> on an object: an existing property keeps its place,
  a new one goes last.\<close>

definition assign :: "(string \<times> jsval) list \<Rightarrow> string \<Rightarrow> jsval \<Rightarrow> (string \<times> jsval) list" where
  "assign fs k v = AList.update k v fs"

section \<open>The task slice (features/todo/todoSlice.ts)\<close>

text \<open>A task is an object; the declared type gives it the properties id, text, completed,
  subject, priority, createdAt, completedAt and deletedAt. Each reducer is the function
  from the state and the payload to the next state. The reducers also start a write of
  the new state to AsyncStorage, which is not awaited and does not touch the Redux state;
  the model leaves it out.\<close>

type_synonym Task = "(string \<times> jsval) list"

record TodoState =
  tasks :: "Task list"

definition initialState :: TodoState where
  "initialState = \<lparr>tasks = []\<rparr>"

record AddTaskPayload =
  a_text :: string
  a_subject :: string
  a_priority :: string
  a_createdAt :: "string option"

record EditTaskPayload =
  e_id :: string
  e_text :: string
  e_priority :: string
  e_subject :: string

text \<open>\<open>uuid\<close> is the value \<^verbatim>\<open>uuid()\<close> returns and \<open>now\<close> the value of
  \<^verbatim>\<open>new Date().toISOString()\<close> at the call.\<close>

definition addTask :: "string \<Rightarrow> string \<Rightarrow> TodoState \<Rightarrow> AddTaskPayload \<Rightarrow> TodoState" where
  "addTask uuid now state payload =
     (let newTask =
        [(''id'', JStr uuid),
         (''text'', JStr (a_text payload)),
         (''subject'', JStr (a_subject payload)),
         (''priority'', JStr (a_priority payload)),
         (''completed'', JBool False),
         (''createdAt'', JStr (case a_createdAt payload of Some c \<Rightarrow> c | None \<Rightarrow> now)),
         (''completedAt'', JNull),
         (''deletedAt'', JNull)]
      in state\<lparr>tasks := tasks state @ [newTask]\<rparr>)"

text \<open>\<^verbatim>\<open>state.tasks.find(p)\<close> returns the first task that satisfies \<open>p\<close>, and the
  assignments that follow change that task where it stands in the array:
  \<open>List.extract\<close> splits the list at the first match.\<close>

definition editTask :: "TodoState \<Rightarrow> EditTaskPayload \<Rightarrow> TodoState" where
  "editTask state payload =
     (case List.extract (\<lambda>t. sameValueZero (prop_of t ''id'') (JStr (e_id payload))) (tasks state) of
        None \<Rightarrow> state
      | Some (before, task, after) \<Rightarrow>
          (let task1 = assign task ''text'' (JStr (e_text payload));
               task2 = assign task1 ''priority'' (JStr (e_priority payload));
               task3 = assign task2 ''subject'' (JStr (e_subject payload))
           in state\<lparr>tasks := before @ task3 # after\<rparr>))"

definition toggleTask :: "string \<Rightarrow> TodoState \<Rightarrow> string \<Rightarrow> TodoState" where
  "toggleTask now state payload =
     (case List.extract (\<lambda>t. sameValueZero (prop_of t ''id'') (JStr payload)) (tasks state) of
        None \<Rightarrow> state
      | Some (before, task, after) \<Rightarrow>
          (let task1 = assign task ''completed'' (JBool (\<not> truthy (prop_of task ''completed'')));
               task2 = assign task1 ''completedAt''
                         (if truthy (prop_of task1 ''completed'') then JStr now else JNull)
           in state\<lparr>tasks := before @ task2 # after\<rparr>))"

definition deleteTask :: "TodoState \<Rightarrow> string \<Rightarrow> TodoState" where
  "deleteTask state payload =
     state\<lparr>tasks := filter (\<lambda>t. \<not> sameValueZero (prop_of t ''id'') (JStr payload)) (tasks state)\<rparr>"

text \<open>The shape check that mergeTasks and the import button both apply to an incoming
  item: \<^verbatim>\<open>t && typeof t.id === "string" && ...\<close>. The leading \<^verbatim>\<open>t &&\<close> keeps null
  away from the property reads.\<close>

definition validTask :: "jsval \<Rightarrow> bool" where
  "validTask t =
     (truthy t \<and>
      typeof (field t ''id'') = ''string'' \<and>
      typeof (field t ''text'') = ''string'' \<and>
      typeof (field t ''subject'') = ''string'' \<and>
      typeof (field t ''priority'') = ''string'' \<and>
      typeof (field t ''createdAt'') = ''string'')"

text \<open>The own properties of an incoming item that passed the shape check (such an item
  is an object, see \<open>validTask_object\<close>): the item as it is stored in the task array.\<close>

fun properties :: "jsval \<Rightarrow> Task" where
  "properties (JObj fs) = fs"
| "properties v = []"

definition mergeTasks :: "TodoState \<Rightarrow> jsval list \<Rightarrow> TodoState" where
  "mergeTasks state payload =
     (let incomingTasks = filter validTask payload;
          existingIds = new_Set (map (\<lambda>t. prop_of t ''id'') (tasks state));
          newTasks = filter (\<lambda>t. \<not> Set_has existingIds (field t ''id'')) incomingTasks
      in state\<lparr>tasks := tasks state @ map properties newTasks\<rparr>)"

definition clearTasks :: "TodoState \<Rightarrow> TodoState" where
  "clearTasks state = state\<lparr>tasks := []\<rparr>"

text \<open>The identifiers of a task list, in order.\<close>

definition task_ids :: "Task list \<Rightarrow> jsval list" where
  "task_ids ts = map (\<lambda>t. prop_of t ''id'') ts"

section \<open>The settings slice (features/settings/settingsSlice.ts)\<close>

datatype ThemeMode = light | dark | system

fun ThemeMode_string :: "ThemeMode \<Rightarrow> jsval" where
  "ThemeMode_string light = JStr ''light''"
| "ThemeMode_string dark = JStr ''dark''"
| "ThemeMode_string system = JStr ''system''"

text \<open>The declared types of the three fields are \<^verbatim>\<open>ThemeMode\<close>, \<^verbatim>\<open>string[]\<close> and
  \<^verbatim>\<open>string | null\<close>; loadSettings, mergeSettings and loadSettingsFromStorage store what
  they are given after the checks written below, so the fields hold JavaScript values.\<close>

record SettingsState =
  themeMode :: jsval
  subjects :: "jsval list"
  notificationTime :: jsval

definition defaultState :: SettingsState where
  "defaultState =
     \<lparr>themeMode = JStr ''system'',
      subjects = [JStr ''Physics'', JStr ''Chemistry'', JStr ''Math''],
      notificationTime = JNull\<rparr>"

definition setThemeMode :: "SettingsState \<Rightarrow> ThemeMode \<Rightarrow> SettingsState" where
  "setThemeMode state payload = state\<lparr>themeMode := ThemeMode_string payload\<rparr>"

definition addSubject :: "SettingsState \<Rightarrow> string \<Rightarrow> SettingsState" where
  "addSubject state payload =
     (if \<not> Array_includes (subjects state) (JStr payload)
      then state\<lparr>subjects := subjects state @ [JStr payload]\<rparr>
      else state)"

definition deleteSubject :: "SettingsState \<Rightarrow> string \<Rightarrow> SettingsState" where
  "deleteSubject state payload =
     state\<lparr>subjects := filter (\<lambda>subject. \<not> sameValueZero subject (JStr payload)) (subjects state)\<rparr>"

definition setNotificationTime :: "SettingsState \<Rightarrow> string option \<Rightarrow> SettingsState" where
  "setNotificationTime state payload =
     state\<lparr>notificationTime := (case payload of Some t \<Rightarrow> JStr t | None \<Rightarrow> JNull)\<rparr>"

text \<open>loadSettings destructures its payload and mergeSettings reads its properties: both
  throw a TypeError, before any assignment, when the payload is null or undefined.\<close>

definition loadSettings :: "SettingsState \<Rightarrow> jsval \<Rightarrow> exn + SettingsState" where
  "loadSettings state payload =
     (if payload = JNull \<or> payload = JUndefined then Inl TypeError
      else
        let themeMode' = field payload ''themeMode'';
            subjects' = field payload ''subjects'';
            notificationTime' = field payload ''notificationTime'';
            s1 = (if themeMode' \<noteq> JUndefined then state\<lparr>themeMode := themeMode'\<rparr> else state);
            s2 = (if isArray subjects' then s1\<lparr>subjects := elements subjects'\<rparr> else s1);
            s3 = (if typeof notificationTime' = ''string'' \<or> notificationTime' = JNull
                  then s2\<lparr>notificationTime := notificationTime'\<rparr> else s2)
        in Inr s3)"

definition mergeSettings :: "SettingsState \<Rightarrow> jsval \<Rightarrow> exn + SettingsState" where
  "mergeSettings state incoming =
     (if incoming = JNull \<or> incoming = JUndefined then Inl TypeError
      else
        let s1 = (if truthy (field incoming ''themeMode'')
                  then state\<lparr>themeMode := field incoming ''themeMode''\<rparr> else state);
            s2 = (if isArray (field incoming ''subjects'')
                  then (let uniqueSubjects =
                              new_Set (subjects s1 @ elements (field incoming ''subjects''))
                        in s1\<lparr>subjects := Array_from uniqueSubjects\<rparr>)
                  else s1);
            s3 = (if typeof (field incoming ''notificationTime'') = ''string'' \<or>
                     field incoming ''notificationTime'' = JNull
                  then s2\<lparr>notificationTime := field incoming ''notificationTime''\<rparr> else s2)
        in Inr s3)"

definition clearSettings :: "SettingsState \<Rightarrow> SettingsState" where
  "clearSettings state =
     state\<lparr>themeMode := JStr ''system'',
           subjects := [JStr ''Physics'', JStr ''Chemistry'', JStr ''Math''],
           notificationTime := JNull\<rparr>"

section \<open>The platform\<close>

text \<open>
  What the program calls and does not define: \<^verbatim>\<open>AsyncStorage.getItem\<close> (which resolves
  to a string or null, or rejects), \<^verbatim>\<open>FileSystem.readAsStringAsync\<close>, \<^verbatim>\<open>JSON.parse\<close>
  (which returns a value or throws) and the text the engine gives to the \<^verbatim>\<open>message\<close> of the
  errors it raises itself.
\<close>

record platform =
  getItem :: "string \<Rightarrow> exn + string option"
  readAsStringAsync :: "string \<Rightarrow> exn + string"
  JSON_parse :: "string \<Rightarrow> exn + jsval"
  engine_message :: "exn \<Rightarrow> string"

definition err_message :: "platform \<Rightarrow> exn \<Rightarrow> string" where
  "err_message pf err = (case err of Error m \<Rightarrow> m | _ \<Rightarrow> engine_message pf err)"

definition STORAGE_KEYS_TASKS :: string where
  "STORAGE_KEYS_TASKS = ''braindesk:tasks''"

definition STORAGE_KEYS_SETTINGS :: string where
  "STORAGE_KEYS_SETTINGS = ''braindesk:settings''"

section \<open>Loading the settings from storage\<close>

text \<open>The body of the \<^verbatim>\<open>try\<close> block of loadSettingsFromStorage: every statement that can
  throw is a branch that returns the thrown value.\<close>

definition loadSettingsFromStorage_try :: "platform \<Rightarrow> exn + SettingsState" where
  "loadSettingsFromStorage_try pf =
     (case getItem pf STORAGE_KEYS_SETTINGS of
        Inl err \<Rightarrow> Inl err
      | Inr json \<Rightarrow>
          (case (case json of
                   None \<Rightarrow> Inr (JObj [])
                 | Some s \<Rightarrow> if s \<noteq> [] then JSON_parse pf s else Inr (JObj [])) of
             Inl err \<Rightarrow> Inl err
           | Inr parsed \<Rightarrow>
               (case get parsed ''themeMode'' of
                  Inl err \<Rightarrow> Inl err
                | Inr tm \<Rightarrow>
                    (case get parsed ''subjects'' of
                       Inl err \<Rightarrow> Inl err
                     | Inr sj \<Rightarrow>
                         (case get parsed ''notificationTime'' of
                            Inl err \<Rightarrow> Inl err
                          | Inr nt \<Rightarrow>
                              Inr \<lparr>themeMode =
                                     (if tm = JNull \<or> tm = JUndefined
                                      then themeMode defaultState else tm),
                                   subjects =
                                     (if isArray sj then elements sj
                                      else subjects defaultState),
                                   notificationTime =
                                     (if typeof nt = ''string'' then nt
                                      else notificationTime defaultState)\<rparr>)))))"

text \<open>The function: the \<^verbatim>\<open>catch\<close> block logs the error and returns the defaults.
  \<open>Inl\<close> would be a rejected promise.\<close>

definition loadSettingsFromStorage :: "platform \<Rightarrow> exn + SettingsState" where
  "loadSettingsFromStorage pf =
     (case loadSettingsFromStorage_try pf of
        Inr state \<Rightarrow> Inr state
      | Inl err \<Rightarrow> Inr defaultState)"

section \<open>The import button (components/settings/ImportButton.tsx)\<close>

datatype AlertType = alert_success | alert_warning | alert_error

text \<open>The component's own state (its four \<^verbatim>\<open>useState\<close> cells) and the Redux store.\<close>

record ImportButton =
  modalVisible :: bool
  alertTitle :: string
  alertMessage :: string
  alertType :: AlertType

record RootState =
  todo :: TodoState
  settings :: SettingsState

record App =
  store :: RootState
  button :: ImportButton

definition showAlert :: "AlertType \<Rightarrow> string \<Rightarrow> string \<Rightarrow> ImportButton \<Rightarrow> ImportButton" where
  "showAlert ty title message b =
     b\<lparr>alertType := ty, alertTitle := title, alertMessage := message, modalVisible := True\<rparr>"

text \<open>The decimal digits of a natural number, as a template literal prints an array's
  length.\<close>

fun decimal :: "nat \<Rightarrow> string" where
  "decimal n =
     (if n < 10 then [char_of (48 + n)]
      else decimal (n div 10) @ [char_of (48 + n mod 10)])"

declare decimal.simps [simp del]

text \<open>What the document picker resolved to: the flag and the URIs of the picked assets
  (\<open>None\<close> when the \<^verbatim>\<open>assets\<close> property is null).\<close>

record DocumentPickerResult =
  canceled :: bool
  assets :: "string list option"

text \<open>The \<^verbatim>\<open>catch\<close> block of handleImport, run in the state the throw left.\<close>

definition import_failed :: "platform \<Rightarrow> exn \<Rightarrow> App \<Rightarrow> App" where
  "import_failed pf err app =
     app\<lparr>button :=
           showAlert alert_error ''Import Failed''
             (if err_message pf err \<noteq> [] then err_message pf err else ''Could not import data.'')
             (button app)\<rparr>"

text \<open>handleImport. \<open>currentTasks\<close> is the task list the component selected from the
  store. The two dispatches run the reducers on the store, one after the other.\<close>

definition handleImport :: "platform \<Rightarrow> DocumentPickerResult \<Rightarrow> App \<Rightarrow> App" where
  "handleImport pf result app =
     (if canceled result then app
      else case assets result of
        None \<Rightarrow> app
      | Some [] \<Rightarrow> app
      | Some (uri # others) \<Rightarrow>
     (case readAsStringAsync pf uri of
        Inl err \<Rightarrow> import_failed pf err app
      | Inr content \<Rightarrow>
     (case JSON_parse pf content of
        Inl err \<Rightarrow> import_failed pf err app
      | Inr parsed \<Rightarrow>
     (case get parsed ''tasks'' of
        Inl err \<Rightarrow> import_failed pf err app
      | Inr parsed_tasks \<Rightarrow>
     if \<not> isArray parsed_tasks
     then import_failed pf (Error ''Invalid format: 'tasks' array missing.'') app
     else
     (case get parsed ''settings'' of
        Inl err \<Rightarrow> import_failed pf err app
      | Inr parsed_settings \<Rightarrow>
     if typeof parsed_settings \<noteq> ''object'' \<or> parsed_settings = JNull
     then import_failed pf (Error ''Invalid format: 'settings' object missing.'') app
     else
       let currentTasks = tasks (todo (store app));
           validTasks = filter validTask (elements parsed_tasks);
           existingIds = new_Set (map (\<lambda>t. prop_of t ''id'') currentTasks);
           newTasks = filter (\<lambda>t. \<not> Set_has existingIds (field t ''id'')) validTasks
       in
         if length newTasks = 0
         then app\<lparr>button :=
                    showAlert alert_warning ''Nothing to Import''
                      ''No new tasks found to merge.'' (button app)\<rparr>
         else
           let app1 = app\<lparr>store := (store app)\<lparr>todo := mergeTasks (todo (store app)) validTasks\<rparr>\<rparr>
           in case mergeSettings (settings (store app1)) parsed_settings of
                Inl err \<Rightarrow> import_failed pf err app1
              | Inr settings' \<Rightarrow>
                  (let app2 = app1\<lparr>store := (store app1)\<lparr>settings := settings'\<rparr>\<rparr>
                   in app2\<lparr>button :=
                             showAlert alert_success ''Import Successful''
                               (decimal (length newTasks) @ '' new tasks merged.'')
                               (button app2)\<rparr>))))))"

section \<open>Example values\<close>

text \<open>Concrete states and payloads on which the theorems below are exercised.\<close>

definition ex_task_a :: Task where
  "ex_task_a =
     [(''id'', JStr ''a''), (''text'', JStr ''read''), (''subject'', JStr ''Physics''),
      (''priority'', JStr ''high''), (''completed'', JBool False),
      (''createdAt'', JStr ''2025-07-11''), (''completedAt'', JNull), (''deletedAt'', JNull)]"

definition ex_task_b :: Task where
  "ex_task_b =
     [(''id'', JStr ''b''), (''text'', JStr ''write''), (''subject'', JStr ''Math''),
      (''priority'', JStr ''low''), (''completed'', JBool True),
      (''createdAt'', JStr ''2025-07-12''), (''completedAt'', JStr ''2025-07-13''),
      (''deletedAt'', JNull)]"

definition ex_todo :: TodoState where
  "ex_todo = \<lparr>tasks = [ex_task_a, ex_task_b]\<rparr>"

definition ex_edit :: EditTaskPayload where
  "ex_edit = \<lparr>e_id = ''a'', e_text = ''revise'', e_priority = ''low'', e_subject = ''Math''\<rparr>"

definition ex_edit_absent :: EditTaskPayload where
  "ex_edit_absent = \<lparr>e_id = ''z'', e_text = ''revise'', e_priority = ''low'', e_subject = ''Math''\<rparr>"

definition ex_item_a :: jsval where
  "ex_item_a =
     JObj [(''id'', JStr ''a''), (''text'', JStr ''read (backup)''), (''subject'', JStr ''Physics''),
           (''priority'', JStr ''high''), (''createdAt'', JStr ''2025-07-11'')]"

definition ex_item_c :: jsval where
  "ex_item_c =
     JObj [(''id'', JStr ''c''), (''text'', JStr ''plan''), (''subject'', JStr ''Biology''),
           (''priority'', JStr ''medium''), (''completed'', JBool False),
           (''createdAt'', JStr ''2025-07-14'')]"

definition ex_item_c2 :: jsval where
  "ex_item_c2 =
     JObj [(''id'', JStr ''c''), (''text'', JStr ''plan again''), (''subject'', JStr ''Biology''),
           (''priority'', JStr ''medium''), (''completed'', JBool False),
           (''createdAt'', JStr ''2025-07-15'')]"

definition ex_item_bad :: jsval where
  "ex_item_bad = JObj [(''id'', JNum 7), (''text'', JStr ''no string id'')]"

definition ex_settings :: SettingsState where
  "ex_settings =
     \<lparr>themeMode = JStr ''system'',
      subjects = [JStr ''Physics'', JStr ''Chemistry''],
      notificationTime = JNull\<rparr>"

definition ex_incoming :: "(string \<times> jsval) list" where
  "ex_incoming =
     [(''themeMode'', JStr ''dark''),
      (''subjects'', JArr [JStr ''Physics'', JStr ''Biology'']),
      (''notificationTime'', JStr ''07:00'')]"

definition ex_settings_dup :: SettingsState where
  "ex_settings_dup =
     \<lparr>themeMode = JStr ''system'',
      subjects = [JStr ''Physics'', JStr ''Math'', JStr ''Physics''],
      notificationTime = JNull\<rparr>"

definition ex_load_dup :: jsval where
  "ex_load_dup = JObj [(''subjects'', JArr [JStr ''History'', JStr ''History''])]"

definition ex_load :: jsval where
  "ex_load = JObj [(''themeMode'', JStr ''light''), (''subjects'', JArr [JStr ''History''])]"

definition ex_platform_empty :: platform where
  "ex_platform_empty =
     \<lparr>getItem = (\<lambda>key. Inr None),
      readAsStringAsync = (\<lambda>uri. Inl Rejected),
      JSON_parse = (\<lambda>s. Inl SyntaxError),
      engine_message = (\<lambda>err. ''Unexpected token'')\<rparr>"

definition ex_platform_corrupt :: platform where
  "ex_platform_corrupt =
     \<lparr>getItem = (\<lambda>key. Inr (Some ''not-a-valid-json'')),
      readAsStringAsync = (\<lambda>uri. Inr ''not-a-valid-json''),
      JSON_parse = (\<lambda>s. Inl SyntaxError),
      engine_message = (\<lambda>err. ''Unexpected token'')\<rparr>"

definition ex_platform :: "jsval \<Rightarrow> platform" where
  "ex_platform parsed =
     \<lparr>getItem = (\<lambda>key. Inr None),
      readAsStringAsync = (\<lambda>uri. Inr ''backup text''),
      JSON_parse = (\<lambda>s. Inr parsed),
      engine_message = (\<lambda>err. ''Cannot read property'')\<rparr>"

definition ex_picked :: DocumentPickerResult where
  "ex_picked = \<lparr>canceled = False, assets = Some [''file:///backup.json'']\<rparr>"

definition ex_button :: ImportButton where
  "ex_button = \<lparr>modalVisible = False, alertTitle = [], alertMessage = [], alertType = alert_success\<rparr>"

definition ex_app :: App where
  "ex_app = \<lparr>store = \<lparr>todo = ex_todo, settings = ex_settings\<rparr>, button = ex_button\<rparr>"

definition ex_backup_known :: jsval where
  "ex_backup_known = JObj [(''tasks'', JArr [ex_item_a, JNull]), (''settings'', JObj ex_incoming)]"

definition ex_backup_new :: jsval where
  "ex_backup_new = JObj [(''tasks'', JArr [ex_item_a, ex_item_c]), (''settings'', JObj ex_incoming)]"

definition ex_backup_settings_array :: jsval where
  "ex_backup_settings_array = JObj [(''tasks'', JArr [ex_item_c]), (''settings'', JArr [])]"

definition ex_backup_settings_null :: jsval where
  "ex_backup_settings_null = JObj [(''tasks'', JArr [ex_item_c]), (''settings'', JNull)]"

section \<open>Facts about values and sets\<close>

lemma sameValueZero_JStr [simp]: "sameValueZero x (JStr s) \<longleftrightarrow> x = JStr s"
  by (auto simp: sameValueZero_def)

lemma Set_has_iff: "Set_has s v \<longleftrightarrow> primitive v \<and> v \<in> set s"
  by (auto simp: Set_has_def sameValueZero_def list_ex_iff)

lemma set_Set_add: "set (Set_add s v) = insert v (set s)"
  by (auto simp: Set_add_def Set_has_iff)

lemma set_foldl_Set_add: "set (foldl Set_add s xs) = set s \<union> set xs"
  by (induction xs arbitrary: s) (auto simp: set_Set_add)

lemma set_new_Set [simp]: "set (new_Set xs) = set xs"
  by (simp add: new_Set_def set_foldl_Set_add)

lemma Set_has_new_Set [simp]: "Set_has (new_Set xs) v = Set_has xs v"
  by (simp add: Set_has_iff)

lemma prop_of_assign: "prop_of (assign fs k v) k' = (if k' = k then v else prop_of fs k')"
  by (simp add: prop_of_def assign_def update_conv')

lemma validTask_object: "validTask t \<Longrightarrow> t = JObj (properties t)"
  by (cases t) (simp_all add: validTask_def)

lemma validTask_id: "validTask t \<Longrightarrow> \<exists>s. field t ''id'' = JStr s"
  by (cases "field t ''id''") (simp_all add: validTask_def)

lemma validTask_fresh:
  assumes "validTask t"
  shows "Set_has ids (field t ''id'') \<longleftrightarrow> field t ''id'' \<in> set ids"
proof -
  obtain s where "field t ''id'' = JStr s" using validTask_id[OF assms] by blast
  then show ?thesis by (simp add: Set_has_iff)
qed

section \<open>Editing a task\<close>

lemma editTask_unfold:
  "editTask state payload =
     (case List.extract (\<lambda>t. prop_of t ''id'' = JStr (e_id payload)) (tasks state) of
        None \<Rightarrow> state
      | Some (before, task, after) \<Rightarrow>
          state\<lparr>tasks := before @
            assign (assign (assign task ''text'' (JStr (e_text payload)))
              ''priority'' (JStr (e_priority payload))) ''subject'' (JStr (e_subject payload))
            # after\<rparr>)"
  by (simp add: editTask_def Let_def split: option.split prod.split)

lemma editTask_cases:
  obtains
    (absent) "\<forall>t\<in>set (tasks state). prop_of t ''id'' \<noteq> JStr (e_id payload)"
      "editTask state payload = state"
  | (found) before task after where
      "tasks state = before @ task # after"
      "prop_of task ''id'' = JStr (e_id payload)"
      "\<forall>t\<in>set before. prop_of t ''id'' \<noteq> JStr (e_id payload)"
      "editTask state payload =
         state\<lparr>tasks := before @
           assign (assign (assign task ''text'' (JStr (e_text payload)))
             ''priority'' (JStr (e_priority payload))) ''subject'' (JStr (e_subject payload))
           # after\<rparr>"
proof (cases "List.extract (\<lambda>t. prop_of t ''id'' = JStr (e_id payload)) (tasks state)")
  case None
  then have "editTask state payload = state"
    by (simp add: editTask_unfold)
  moreover from None have "\<forall>t\<in>set (tasks state). prop_of t ''id'' \<noteq> JStr (e_id payload)"
    by (simp add: extract_None_iff)
  ultimately show ?thesis by (rule absent[rotated])
next
  case (Some r)
  obtain before task after where r: "r = (before, task, after)" by (cases r)
  from Some have e: "editTask state payload =
         state\<lparr>tasks := before @
           assign (assign (assign task ''text'' (JStr (e_text payload)))
             ''priority'' (JStr (e_priority payload))) ''subject'' (JStr (e_subject payload))
           # after\<rparr>"
    by (simp add: editTask_unfold r)
  from Some have "tasks state = before @ task # after"
    "prop_of task ''id'' = JStr (e_id payload)"
    "\<forall>t\<in>set before. prop_of t ''id'' \<noteq> JStr (e_id payload)"
    by (auto simp: extract_Some_iff r)
  then show ?thesis using e by (rule found)
qed

text \<open>
  C9. editTask changes nothing but the text, priority and subject of one task, the first
  one whose id is the payload's id. The task list keeps its length; in every task every
  property other than text, priority and subject (so id, completed, createdAt, completedAt
  and deletedAt) keeps its value; every task that is not that first match is left as it
  is; the first match gets the payload's text, priority and subject; and when no task has
  the payload's id the state is returned unchanged.
\<close>

theorem editTask_frame:
  "length (tasks (editTask state payload)) = length (tasks state) \<and>
   (\<forall>i<length (tasks state). \<forall>k. k \<notin> {''text'', ''priority'', ''subject''} \<longrightarrow>
      prop_of (tasks (editTask state payload) ! i) k = prop_of (tasks state ! i) k) \<and>
   (\<forall>i<length (tasks state).
      prop_of (tasks state ! i) ''id'' \<noteq> JStr (e_id payload) \<or>
      (\<exists>j<i. prop_of (tasks state ! j) ''id'' = JStr (e_id payload)) \<longrightarrow>
      tasks (editTask state payload) ! i = tasks state ! i) \<and>
   (\<forall>i<length (tasks state).
      prop_of (tasks state ! i) ''id'' = JStr (e_id payload) \<and>
      (\<forall>j<i. prop_of (tasks state ! j) ''id'' \<noteq> JStr (e_id payload)) \<longrightarrow>
      prop_of (tasks (editTask state payload) ! i) ''text'' = JStr (e_text payload) \<and>
      prop_of (tasks (editTask state payload) ! i) ''priority'' = JStr (e_priority payload) \<and>
      prop_of (tasks (editTask state payload) ! i) ''subject'' = JStr (e_subject payload)) \<and>
   ((\<forall>t\<in>set (tasks state). prop_of t ''id'' \<noteq> JStr (e_id payload)) \<longrightarrow>
      editTask state payload = state)"
proof (cases rule: editTask_cases[of state payload])
  case absent
  have "prop_of (tasks state ! i) ''id'' \<noteq> JStr (e_id payload)" if "i < length (tasks state)" for i
    using absent(1) nth_mem[OF that] by blast
  then show ?thesis using absent(2) by simp
next
  case (found before task after)
  let ?n = "length before"
  let ?edited = "assign (assign (assign task ''text'' (JStr (e_text payload)))
             ''priority'' (JStr (e_priority payload))) ''subject'' (JStr (e_subject payload))"
  have first: "i = ?n" if "i < length (tasks state)"
    "prop_of (tasks state ! i) ''id'' = JStr (e_id payload)"
    "\<forall>j<i. prop_of (tasks state ! j) ''id'' \<noteq> JStr (e_id payload)" for i
  proof (rule ccontr)
    assume "i \<noteq> ?n"
    then consider "i < ?n" | "?n < i" by linarith
    then show False
    proof cases
      case 1
      then have "tasks state ! i \<in> set before" by (simp add: found(1) nth_append)
      with found(3) that(2) show False by blast
    next
      case 2
      then have "prop_of (tasks state ! ?n) ''id'' \<noteq> JStr (e_id payload)" using that(3) by blast
      then show False by (simp add: found(1,2))
    qed
  qed
  have other: "tasks (editTask state payload) ! i = tasks state ! i" if "i \<noteq> ?n" for i
    using that by (simp add: found(1,4) nth_append)
  have same: "tasks (editTask state payload) ! ?n = ?edited" "tasks state ! ?n = task"
    by (simp_all add: found(1,4))
  have c1: "length (tasks (editTask state payload)) = length (tasks state)"
    by (simp add: found(1,4))
  have c2: "prop_of (tasks (editTask state payload) ! i) k = prop_of (tasks state ! i) k"
    if "k \<notin> {''text'', ''priority'', ''subject''}" for i k
    using that by (cases "i = ?n") (auto simp: other same prop_of_assign)
  have c3: "tasks (editTask state payload) ! i = tasks state ! i"
    if "i < length (tasks state)"
      "prop_of (tasks state ! i) ''id'' \<noteq> JStr (e_id payload) \<or>
       (\<exists>j<i. prop_of (tasks state ! j) ''id'' = JStr (e_id payload))" for i
  proof (cases "i = ?n")
    case True
    with that(2) obtain j where "j < ?n" "prop_of (tasks state ! j) ''id'' = JStr (e_id payload)"
      by (auto simp: same found(2))
    then have "tasks state ! j \<in> set before" "prop_of (tasks state ! j) ''id'' = JStr (e_id payload)"
      by (simp_all add: found(1) nth_append)
    with found(3) show ?thesis by blast
  next
    case False
    then show ?thesis by (rule other)
  qed
  have c4: "prop_of (tasks (editTask state payload) ! i) ''text'' = JStr (e_text payload) \<and>
      prop_of (tasks (editTask state payload) ! i) ''priority'' = JStr (e_priority payload) \<and>
      prop_of (tasks (editTask state payload) ! i) ''subject'' = JStr (e_subject payload)"
    if "i < length (tasks state)"
    "prop_of (tasks state ! i) ''id'' = JStr (e_id payload)"
    "\<forall>j<i. prop_of (tasks state ! j) ''id'' \<noteq> JStr (e_id payload)" for i
    using first[OF that] by (simp add: same prop_of_assign)
  have c5: "(\<forall>t\<in>set (tasks state). prop_of t ''id'' \<noteq> JStr (e_id payload)) \<longrightarrow>
      editTask state payload = state"
    using found(1,2) by auto
  show ?thesis using c1 c2 c3 c4 c5 by blast
qed

theorem editTask_frame_witness:
  "prop_of (tasks (editTask ex_todo ex_edit) ! 0) ''id'' = JStr ''a'' \<and>
   prop_of (tasks (editTask ex_todo ex_edit) ! 0) ''completed'' = JBool False \<and>
   prop_of (tasks (editTask ex_todo ex_edit) ! 0) ''createdAt'' = JStr ''2025-07-11'' \<and>
   prop_of (tasks (editTask ex_todo ex_edit) ! 0) ''completedAt'' = JNull \<and>
   prop_of (tasks (editTask ex_todo ex_edit) ! 0) ''deletedAt'' = JNull \<and>
   prop_of (tasks (editTask ex_todo ex_edit) ! 0) ''text'' = JStr ''revise'' \<and>
   tasks (editTask ex_todo ex_edit) ! 1 = ex_task_b \<and>
   length (tasks (editTask ex_todo ex_edit)) = 2 \<and>
   editTask ex_todo ex_edit_absent = ex_todo"
proof -
  note f = editTask_frame[of ex_todo ex_edit]
  have keep: "prop_of (tasks (editTask ex_todo ex_edit) ! 0) k = prop_of (tasks ex_todo ! 0) k"
    if "k \<notin> {''text'', ''priority'', ''subject''}" for k
    using f that by (simp add: ex_todo_def)
  have other: "tasks (editTask ex_todo ex_edit) ! 1 = tasks ex_todo ! 1"
    using f[THEN conjunct2, THEN conjunct2, THEN conjunct1, rule_format, of 1]
    by (simp add: ex_todo_def ex_task_a_def ex_task_b_def ex_edit_def prop_of_def)
  have new: "prop_of (tasks (editTask ex_todo ex_edit) ! 0) ''text'' = JStr ''revise''"
    using f[THEN conjunct2, THEN conjunct2, THEN conjunct2, THEN conjunct1, rule_format, of 0]
    by (simp add: ex_todo_def ex_task_a_def ex_edit_def prop_of_def)
  have len: "length (tasks (editTask ex_todo ex_edit)) = 2"
    using f by (simp add: ex_todo_def)
  have absent: "editTask ex_todo ex_edit_absent = ex_todo"
    using editTask_frame[of ex_todo ex_edit_absent]
    by (simp add: ex_todo_def ex_task_a_def ex_task_b_def ex_edit_absent_def prop_of_def)
  show ?thesis
    using keep[of "''id''"] keep[of "''completed''"] keep[of "''createdAt''"]
      keep[of "''completedAt''"] keep[of "''deletedAt''"] other new len absent
    by (simp add: ex_todo_def ex_task_a_def prop_of_def)
qed

section \<open>Merging tasks\<close>

lemma mergeTasks_tasks:
  "tasks (mergeTasks state payload) =
     tasks state @ map properties
       (filter (\<lambda>t. validTask t \<and> field t ''id'' \<notin> set (task_ids (tasks state))) payload)"
proof -
  have "filter (\<lambda>t. \<not> Set_has (new_Set (task_ids (tasks state))) (field t ''id'')) (filter validTask payload)
        = filter (\<lambda>t. validTask t \<and> field t ''id'' \<notin> set (task_ids (tasks state))) payload"
    unfolding filter_filter by (rule filter_cong) (auto simp: validTask_fresh)
  then show ?thesis by (simp add: mergeTasks_def task_ids_def Let_def)
qed

lemma prop_of_properties: "validTask t \<Longrightarrow> prop_of (properties t) k = field t k"
  by (cases t) (simp_all add: validTask_def)

text \<open>
  C1. mergeTasks appends to the current task list, which it keeps as it is (same tasks,
  same properties, same order), the incoming items that pass the string-field check and
  whose id is the id of no current task, in their order. No appended task carries the id
  of a current task, so an incoming item whose id is already there is dropped, and every
  incoming item that passes the check and has a fresh id is appended (such an item is an
  object, and it is stored with all its properties). Incoming items are compared with the
  current tasks only, not with each other.
\<close>

theorem mergeTasks_union:
  "tasks (mergeTasks state payload) =
     tasks state @ map properties
       (filter (\<lambda>t. validTask t \<and> field t ''id'' \<notin> set (task_ids (tasks state))) payload) \<and>
   take (length (tasks state)) (tasks (mergeTasks state payload)) = tasks state \<and>
   (\<forall>a \<in> set (drop (length (tasks state)) (tasks (mergeTasks state payload))).
      prop_of a ''id'' \<notin> set (task_ids (tasks state))) \<and>
   (\<forall>t \<in> set payload. validTask t \<and> field t ''id'' \<notin> set (task_ids (tasks state)) \<longrightarrow>
      t = JObj (properties t) \<and>
      properties t \<in> set (drop (length (tasks state)) (tasks (mergeTasks state payload))))"
proof -
  let ?new = "filter (\<lambda>t. validTask t \<and> field t ''id'' \<notin> set (task_ids (tasks state))) payload"
  have eq: "tasks (mergeTasks state payload) = tasks state @ map properties ?new"
    by (rule mergeTasks_tasks)
  have kept: "take (length (tasks state)) (tasks (mergeTasks state payload)) = tasks state"
    by (simp add: eq)
  have added: "drop (length (tasks state)) (tasks (mergeTasks state payload)) = map properties ?new"
    by (simp add: eq)
  have fresh: "prop_of a ''id'' \<notin> set (task_ids (tasks state))"
    if "a \<in> set (map properties ?new)" for a
  proof -
    from that obtain t where "t \<in> set ?new" "a = properties t" by auto
    then show ?thesis by (simp add: prop_of_properties)
  qed
  have inc: "t = JObj (properties t) \<and> properties t \<in> set (map properties ?new)"
    if "t \<in> set payload" "validTask t \<and> field t ''id'' \<notin> set (task_ids (tasks state))" for t
    using that validTask_object[of t] by auto
  show ?thesis
    unfolding added using eq kept fresh inc by auto
qed

theorem mergeTasks_union_witness:
  "tasks (mergeTasks ex_todo [ex_item_a, ex_item_c, JNull, ex_item_bad]) =
     [ex_task_a, ex_task_b, properties ex_item_c] \<and>
   prop_of (properties ex_item_c) ''id'' = JStr ''c''"
proof -
  have v: "validTask ex_item_a" "validTask ex_item_c" "\<not> validTask JNull" "\<not> validTask ex_item_bad"
    by (simp_all add: validTask_def ex_item_a_def ex_item_c_def ex_item_bad_def prop_of_def)
  have ids: "task_ids (tasks ex_todo) = [JStr ''a'', JStr ''b'']"
    by (simp add: task_ids_def ex_todo_def ex_task_a_def ex_task_b_def prop_of_def)
  have f: "field ex_item_a ''id'' = JStr ''a''" "field ex_item_c ''id'' = JStr ''c''"
    by (simp_all add: ex_item_a_def ex_item_c_def prop_of_def)
  show ?thesis
    using mergeTasks_union[of ex_todo "[ex_item_a, ex_item_c, JNull, ex_item_bad]"]
    by (simp add: v ids f) (simp add: ex_todo_def ex_item_c_def prop_of_def)
qed

section \<open>Identifiers of the task list\<close>

lemma task_ids_append [simp]: "task_ids (xs @ ys) = task_ids xs @ task_ids ys"
  by (simp add: task_ids_def)

lemma task_ids_Cons [simp]: "task_ids (t # ts) = prop_of t ''id'' # task_ids ts"
  by (simp add: task_ids_def)

lemma task_ids_Nil [simp]: "task_ids [] = []"
  by (simp add: task_ids_def)

lemma task_ids_addTask:
  "task_ids (tasks (addTask uuid now state payload)) = task_ids (tasks state) @ [JStr uuid]"
  by (simp add: addTask_def prop_of_def)

lemma task_ids_editTask: "task_ids (tasks (editTask state payload)) = task_ids (tasks state)"
  by (cases rule: editTask_cases[of state payload]) (simp_all add: prop_of_assign)

lemma task_ids_toggleTask: "task_ids (tasks (toggleTask now state payload)) = task_ids (tasks state)"
proof (cases "List.extract (\<lambda>t. prop_of t ''id'' = JStr payload) (tasks state)")
  case None
  then show ?thesis by (simp add: toggleTask_def)
next
  case (Some r)
  obtain before task after where r: "r = (before, task, after)" by (cases r)
  from Some have "tasks state = before @ task # after"
    by (simp add: extract_Some_iff r)
  with Some show ?thesis
    by (simp add: toggleTask_def r Let_def prop_of_assign)
qed

lemma task_ids_deleteTask:
  "task_ids (tasks (deleteTask state payload)) = filter (\<lambda>i. i \<noteq> JStr payload) (task_ids (tasks state))"
  by (simp add: deleteTask_def task_ids_def filter_map comp_def)

lemma task_ids_mergeTasks:
  "task_ids (tasks (mergeTasks state payload)) =
     task_ids (tasks state) @ map (\<lambda>t. field t ''id'')
       (filter (\<lambda>t. validTask t \<and> field t ''id'' \<notin> set (task_ids (tasks state))) payload)"
  by (simp add: mergeTasks_tasks) (simp add: task_ids_def prop_of_properties)

text \<open>
  Distinct identifiers stay distinct under addTask with a fresh identifier, editTask,
  toggleTask, deleteTask and clearTasks, and under mergeTasks when the identifiers of the
  incoming items it appends are distinct from each other.
\<close>

lemma task_ids_distinct_preserved:
  assumes "distinct (task_ids (tasks state))"
  shows "JStr uuid \<notin> set (task_ids (tasks state)) \<Longrightarrow>
           distinct (task_ids (tasks (addTask uuid now state a)))"
    and "distinct (task_ids (tasks (editTask state e)))"
    and "distinct (task_ids (tasks (toggleTask now state i)))"
    and "distinct (task_ids (tasks (deleteTask state i)))"
    and "distinct (task_ids (tasks (clearTasks state)))"
    and "distinct (map (\<lambda>t. field t ''id'')
            (filter (\<lambda>t. validTask t \<and> field t ''id'' \<notin> set (task_ids (tasks state))) payload)) \<Longrightarrow>
         distinct (task_ids (tasks (mergeTasks state payload)))"
  using assms
  by (auto simp: task_ids_addTask task_ids_editTask task_ids_toggleTask task_ids_deleteTask
      task_ids_mergeTasks clearTasks_def)

text \<open>
  C2. The identifiers of a task list stay pairwise distinct under every operation of the
  task store. mergeTasks breaks this: on the list with the tasks a and b, a payload of two
  well-formed items that both carry the new identifier c appends both, and the resulting
  list holds the identifier c twice.
\<close>

theorem mergeTasks_duplicate_ids:
  "distinct (task_ids (tasks ex_todo)) \<and>
   validTask ex_item_c \<and> validTask ex_item_c2 \<and>
   task_ids (tasks (mergeTasks ex_todo [ex_item_c, ex_item_c2])) =
     [JStr ''a'', JStr ''b'', JStr ''c'', JStr ''c''] \<and>
   \<not> distinct (task_ids (tasks (mergeTasks ex_todo [ex_item_c, ex_item_c2])))"
proof -
  have v: "validTask ex_item_c" "validTask ex_item_c2"
    by (simp_all add: validTask_def ex_item_c_def ex_item_c2_def prop_of_def)
  have ids: "task_ids (tasks ex_todo) = [JStr ''a'', JStr ''b'']"
    by (simp add: ex_todo_def ex_task_a_def ex_task_b_def prop_of_def)
  have f: "field ex_item_c ''id'' = JStr ''c''" "field ex_item_c2 ''id'' = JStr ''c''"
    by (simp_all add: ex_item_c_def ex_item_c2_def prop_of_def)
  have "task_ids (tasks (mergeTasks ex_todo [ex_item_c, ex_item_c2])) =
     [JStr ''a'', JStr ''b'', JStr ''c'', JStr ''c'']"
    by (simp add: task_ids_mergeTasks v ids f)
  then show ?thesis using v ids by simp
qed

section \<open>The settings reducers\<close>

lemma Set_add_primitive: "primitive v \<Longrightarrow> Set_add s v = (if v \<in> set s then s else s @ [v])"
  by (simp add: Set_add_def Set_has_iff)

lemma Set_add_object: "\<not> primitive v \<Longrightarrow> Set_add s v = s @ [v]"
  by (simp add: Set_add_def Set_has_iff)

lemma distinct_foldl_Set_add:
  "distinct s \<Longrightarrow> \<forall>x\<in>set xs. primitive x \<Longrightarrow> distinct (foldl Set_add s xs)"
  by (induction xs arbitrary: s) (simp_all add: Set_add_primitive)

lemma foldl_Set_add_distinct: "distinct (s @ xs) \<Longrightarrow> foldl Set_add s xs = s @ xs"
proof (induction xs arbitrary: s)
  case Nil
  then show ?case by simp
next
  case (Cons x xs)
  then have "Set_add s x = s @ [x]"
    by (cases "primitive x") (simp_all add: Set_add_primitive Set_add_object)
  with Cons.IH[of "s @ [x]"] Cons.prems show ?case by simp
qed

lemma distinct_new_Set: "\<forall>x\<in>set xs. primitive x \<Longrightarrow> distinct (new_Set xs)"
  by (simp add: new_Set_def distinct_foldl_Set_add)

lemma new_Set_append_distinct:
  "distinct xs \<Longrightarrow> new_Set (xs @ ys) = foldl Set_add xs ys"
  using foldl_Set_add_distinct[of "[]" xs] by (simp add: new_Set_def)

lemma mergeSettings_object:
  "mergeSettings state (JObj fs) =
     Inr \<lparr>themeMode = (if truthy (prop_of fs ''themeMode'') then prop_of fs ''themeMode''
                        else themeMode state),
          subjects = (if isArray (prop_of fs ''subjects'')
                      then new_Set (subjects state @ elements (prop_of fs ''subjects''))
                      else subjects state),
          notificationTime =
            (if typeof (prop_of fs ''notificationTime'') = ''string'' \<or>
                prop_of fs ''notificationTime'' = JNull
             then prop_of fs ''notificationTime'' else notificationTime state)\<rparr>"
  by (simp add: mergeSettings_def Let_def Array_from_def)

lemma truthy_ThemeMode: "truthy (ThemeMode_string m)"
  by (cases m) simp_all

text \<open>
  C5. On an incoming settings object mergeSettings returns a state in which the theme is
  the incoming theme when one is provided (any of the three theme modes, and more
  generally any truthy value) and the old theme when the property is absent; the subjects
  are, when the incoming object has a subjects array, the union of the current and the
  incoming subjects as a set, without duplicates when the labels are strings (primitive
  values), and the old list when the property is absent; and the notification time is the
  incoming one when it is a string or null and the old one when the property is absent.
\<close>

theorem mergeSettings_spec:
  "\<exists>state'. mergeSettings state (JObj fs) = Inr state' \<and>
     (\<forall>m. prop_of fs ''themeMode'' = ThemeMode_string m \<longrightarrow> themeMode state' = ThemeMode_string m) \<and>
     (truthy (prop_of fs ''themeMode'') \<longrightarrow> themeMode state' = prop_of fs ''themeMode'') \<and>
     (prop_of fs ''themeMode'' = JUndefined \<longrightarrow> themeMode state' = themeMode state) \<and>
     (\<forall>xs. prop_of fs ''subjects'' = JArr xs \<longrightarrow>
        set (subjects state') = set (subjects state) \<union> set xs \<and>
        ((\<forall>x \<in> set (subjects state) \<union> set xs. primitive x) \<longrightarrow> distinct (subjects state'))) \<and>
     (prop_of fs ''subjects'' = JUndefined \<longrightarrow> subjects state' = subjects state) \<and>
     (\<forall>t. prop_of fs ''notificationTime'' = JStr t \<longrightarrow> notificationTime state' = JStr t) \<and>
     (prop_of fs ''notificationTime'' = JNull \<longrightarrow> notificationTime state' = JNull) \<and>
     (prop_of fs ''notificationTime'' = JUndefined \<longrightarrow>
        notificationTime state' = notificationTime state)"
  unfolding mergeSettings_object
  by (intro exI conjI refl) (auto simp: truthy_ThemeMode distinct_new_Set)

theorem mergeSettings_spec_witness:
  "\<exists>state'. mergeSettings ex_settings (JObj ex_incoming) = Inr state' \<and>
     themeMode state' = JStr ''dark'' \<and>
     set (subjects state') = {JStr ''Physics'', JStr ''Chemistry'', JStr ''Biology''} \<and>
     distinct (subjects state') \<and>
     notificationTime state' = JStr ''07:00''"
proof -
  have p: "prop_of ex_incoming ''themeMode'' = ThemeMode_string dark"
    "prop_of ex_incoming ''subjects'' = JArr [JStr ''Physics'', JStr ''Biology'']"
    "prop_of ex_incoming ''notificationTime'' = JStr ''07:00''"
    by (simp_all add: ex_incoming_def prop_of_def)
  from mergeSettings_spec[of ex_settings ex_incoming]
  obtain state' where s: "mergeSettings ex_settings (JObj ex_incoming) = Inr state'"
    and t: "\<forall>m. prop_of ex_incoming ''themeMode'' = ThemeMode_string m \<longrightarrow> themeMode state' = ThemeMode_string m"
    and u: "\<forall>xs. prop_of ex_incoming ''subjects'' = JArr xs \<longrightarrow>
        set (subjects state') = set (subjects ex_settings) \<union> set xs \<and>
        ((\<forall>x \<in> set (subjects ex_settings) \<union> set xs. primitive x) \<longrightarrow> distinct (subjects state'))"
    and n: "\<forall>t. prop_of ex_incoming ''notificationTime'' = JStr t \<longrightarrow> notificationTime state' = JStr t"
    by blast
  from t[rule_format, of dark] p(1) have "themeMode state' = JStr ''dark''" by simp
  moreover from u p(2) have "set (subjects state') = {JStr ''Physics'', JStr ''Chemistry'', JStr ''Biology''}"
    "distinct (subjects state')"
    by (auto simp: ex_settings_def)
  moreover from n p(3) have "notificationTime state' = JStr ''07:00''" by simp
  ultimately show ?thesis using s by blast
qed

lemma Array_includes_JStr: "Array_includes xs (JStr s) \<longleftrightarrow> JStr s \<in> set xs"
  by (auto simp: Array_includes_def list_ex_iff)

lemma subjects_deleteSubject:
  "subjects (deleteSubject state label) = filter (\<lambda>s. s \<noteq> JStr label) (subjects state)"
  by (simp add: deleteSubject_def)

lemma loadSettings_subjects:
  "loadSettings state payload = Inr state' \<Longrightarrow>
     subjects state' =
       (if isArray (field payload ''subjects'') then elements (field payload ''subjects'')
        else subjects state)"
  by (auto simp: loadSettings_def Let_def split: if_splits)

lemma mergeSettings_subjects:
  "mergeSettings state incoming = Inr state' \<Longrightarrow>
     subjects state' =
       (if isArray (field incoming ''subjects'')
        then new_Set (subjects state @ elements (field incoming ''subjects''))
        else subjects state)"
  by (auto simp: mergeSettings_def Let_def Array_from_def split: if_splits)

lemma loadSettings_returns:
  "payload \<noteq> JNull \<Longrightarrow> payload \<noteq> JUndefined \<Longrightarrow> \<exists>state'. loadSettings state payload = Inr state'"
  by (simp add: loadSettings_def Let_def)

lemma mergeSettings_returns:
  "incoming \<noteq> JNull \<Longrightarrow> incoming \<noteq> JUndefined \<Longrightarrow> \<exists>state'. mergeSettings state incoming = Inr state'"
  by (simp add: mergeSettings_def Let_def)

text \<open>
  C6, as stated, fails: loadSettings stores the subjects array of its payload as it is, so
  a payload whose array repeats a label puts a duplicate into a duplicate-free state.
\<close>

theorem loadSettings_duplicates:
  "distinct (subjects defaultState) \<and>
   loadSettings defaultState ex_load_dup =
     Inr (defaultState\<lparr>subjects := [JStr ''History'', JStr ''History'']\<rparr>) \<and>
   \<not> distinct (subjects (defaultState\<lparr>subjects := [JStr ''History'', JStr ''History'']\<rparr>))"
  by (simp add: defaultState_def loadSettings_def ex_load_dup_def prop_of_def Let_def)

text \<open>
  C6, amended. On a state whose subjects are pairwise distinct, setThemeMode, addSubject,
  deleteSubject, setNotificationTime and clearSettings return a state whose subjects are
  pairwise distinct; so does loadSettings when the subjects array of its payload, if it
  has one, is itself free of duplicates; and so does mergeSettings when the incoming
  subjects are strings (primitive values), as the payload type declares. Both return a
  state for every payload that is neither null nor undefined.
\<close>

theorem subjects_distinct_preserved:
  assumes "distinct (subjects state)"
  shows "distinct (subjects (setThemeMode state m)) \<and>
         distinct (subjects (addSubject state s)) \<and>
         distinct (subjects (deleteSubject state s)) \<and>
         distinct (subjects (setNotificationTime state nt)) \<and>
         distinct (subjects (clearSettings state)) \<and>
         (\<forall>state'. loadSettings state payload = Inr state' \<and>
            (isArray (field payload ''subjects'') \<longrightarrow> distinct (elements (field payload ''subjects'')))
            \<longrightarrow> distinct (subjects state')) \<and>
         (\<forall>state'. mergeSettings state incoming = Inr state' \<and>
            (\<forall>x \<in> set (elements (field incoming ''subjects'')). primitive x)
            \<longrightarrow> distinct (subjects state')) \<and>
         (payload \<noteq> JNull \<and> payload \<noteq> JUndefined \<longrightarrow>
            (\<exists>state'. loadSettings state payload = Inr state')) \<and>
         (incoming \<noteq> JNull \<and> incoming \<noteq> JUndefined \<longrightarrow>
            (\<exists>state'. mergeSettings state incoming = Inr state'))"
proof -
  have 1: "distinct (subjects (setThemeMode state m))"
    using assms by (simp add: setThemeMode_def)
  have 2: "distinct (subjects (addSubject state s))"
    using assms by (simp add: addSubject_def Array_includes_JStr)
  have 3: "distinct (subjects (deleteSubject state s))"
    using assms by (simp add: subjects_deleteSubject)
  have 4: "distinct (subjects (setNotificationTime state nt))"
    using assms by (simp add: setNotificationTime_def)
  have 5: "distinct (subjects (clearSettings state))"
    by (simp add: clearSettings_def)
  have 6: "distinct (subjects state')"
    if "loadSettings state payload = Inr state'"
      "isArray (field payload ''subjects'') \<longrightarrow> distinct (elements (field payload ''subjects''))"
    for state'
    using assms that(2) by (simp add: loadSettings_subjects[OF that(1)])
  have 7: "distinct (subjects state')"
    if "mergeSettings state incoming = Inr state'"
      "\<forall>x \<in> set (elements (field incoming ''subjects'')). primitive x"
    for state'
    using assms that(2)
    by (simp add: mergeSettings_subjects[OF that(1)] new_Set_append_distinct distinct_foldl_Set_add)
  have 8: "\<exists>state'. loadSettings state payload = Inr state'"
    if "payload \<noteq> JNull \<and> payload \<noteq> JUndefined"
    using that loadSettings_returns by blast
  have 9: "\<exists>state'. mergeSettings state incoming = Inr state'"
    if "incoming \<noteq> JNull \<and> incoming \<noteq> JUndefined"
    using that mergeSettings_returns by blast
  show ?thesis using 1 2 3 4 5 6 7 8 9 by blast
qed

theorem subjects_distinct_preserved_witness:
  "distinct (subjects ex_settings) \<and>
   distinct (subjects (addSubject ex_settings ''Physics'')) \<and>
   distinct (subjects (addSubject ex_settings ''Biology'')) \<and>
   distinct (subjects (deleteSubject ex_settings ''Physics'')) \<and>
   (\<exists>state'. loadSettings ex_settings ex_load = Inr state' \<and> distinct (subjects state')) \<and>
   (\<exists>state'. mergeSettings ex_settings (JObj ex_incoming) = Inr state' \<and> distinct (subjects state'))"
proof -
  have d: "distinct (subjects ex_settings)" by (simp add: ex_settings_def)
  note th = subjects_distinct_preserved[OF d]
  obtain l where l: "loadSettings ex_settings ex_load = Inr l"
    using loadSettings_returns[of ex_load ex_settings] by (auto simp: ex_load_def)
  have lp: "isArray (field ex_load ''subjects'') \<longrightarrow> distinct (elements (field ex_load ''subjects''))"
    by (simp add: ex_load_def prop_of_def)
  obtain g where g: "mergeSettings ex_settings (JObj ex_incoming) = Inr g"
    using mergeSettings_returns[of "JObj ex_incoming" ex_settings] by auto
  have gp: "\<forall>x \<in> set (elements (field (JObj ex_incoming) ''subjects'')). primitive x"
    by (simp add: ex_incoming_def prop_of_def)
  have "distinct (subjects l)"
    using th[of _ _ _ ex_load, THEN conjunct2, THEN conjunct2, THEN conjunct2, THEN conjunct2,
        THEN conjunct2, THEN conjunct1] l lp by blast
  moreover have "distinct (subjects g)"
    using th[of _ _ _ _ "JObj ex_incoming", THEN conjunct2, THEN conjunct2, THEN conjunct2,
        THEN conjunct2, THEN conjunct2, THEN conjunct2, THEN conjunct1] g gp by blast
  ultimately show ?thesis
    using d th[of light "''Physics''"] th[of light "''Biology''"] l g by blast
qed

text \<open>
  C7, as stated, fails: deleting a label that is not in the list removes no entry, and
  deleting a label that occurs twice removes both entries.
\<close>

theorem deleteSubject_not_exactly_one:
  "\<not> (length (subjects (deleteSubject defaultState ''Biology'')) + 1 = length (subjects defaultState)) \<and>
   \<not> (length (subjects (deleteSubject ex_settings_dup ''Physics'')) + 1 = length (subjects ex_settings_dup))"
  by (simp add: deleteSubject_def defaultState_def ex_settings_dup_def)

text \<open>
  C7, amended. deleteSubject removes every entry equal to the label and no other entry,
  keeps the remaining entries in their order and leaves the theme and the notification
  time alone. The number of entries removed is the number of occurrences of the label:
  exactly one when the list is free of duplicates and contains the label, none (the state
  is unchanged) when the label is not in the list.
\<close>

theorem deleteSubject_removes:
  "subjects (deleteSubject state label) = filter (\<lambda>s. s \<noteq> JStr label) (subjects state) \<and>
   themeMode (deleteSubject state label) = themeMode state \<and>
   notificationTime (deleteSubject state label) = notificationTime state \<and>
   length (subjects (deleteSubject state label)) + count_list (subjects state) (JStr label) =
     length (subjects state) \<and>
   (distinct (subjects state) \<and> JStr label \<in> set (subjects state) \<longrightarrow>
      length (subjects (deleteSubject state label)) + 1 = length (subjects state)) \<and>
   (JStr label \<notin> set (subjects state) \<longrightarrow> deleteSubject state label = state)"
proof -
  have len: "length (filter (\<lambda>s. s \<noteq> v) xs) + count_list xs v = length xs" for xs and v :: jsval
    by (induction xs) simp_all
  have one: "count_list xs v = 1" if "distinct xs" "v \<in> set xs" for xs and v :: jsval
    using that by (induction xs) (auto simp: count_list_0_iff)
  have same: "deleteSubject state label = state" if "JStr label \<notin> set (subjects state)"
  proof -
    have "filter (\<lambda>s. s \<noteq> JStr label) (subjects state) = subjects state"
      using that by (auto simp: filter_id_conv)
    then show ?thesis by (simp add: deleteSubject_def)
  qed
  show ?thesis
    using len[of "JStr label" "subjects state"] one[of "subjects state" "JStr label"] same
    by (auto simp: deleteSubject_def)
qed

theorem deleteSubject_removes_witness:
  "subjects (deleteSubject defaultState ''Chemistry'') = [JStr ''Physics'', JStr ''Math''] \<and>
   length (subjects (deleteSubject defaultState ''Chemistry'')) + 1 = length (subjects defaultState) \<and>
   deleteSubject defaultState ''Biology'' = defaultState"
proof -
  have d: "distinct (subjects defaultState)" "JStr ''Chemistry'' \<in> set (subjects defaultState)"
    "JStr ''Biology'' \<notin> set (subjects defaultState)"
    by (simp_all add: defaultState_def)
  show ?thesis
    using deleteSubject_removes[of defaultState "''Chemistry''"]
      deleteSubject_removes[of defaultState "''Biology''"] d
    by (simp add: defaultState_def)
qed

section \<open>Loading the settings\<close>

lemma loadSettingsFromStorage_returns: "\<exists>state. loadSettingsFromStorage pf = Inr state"
  by (cases "loadSettingsFromStorage_try pf") (simp_all add: loadSettingsFromStorage_def)

text \<open>
  C3. loadSettingsFromStorage never throws: on every platform it returns a settings state.
  When there is no stored record under the settings key, when the stored record is not
  valid JSON (\<^verbatim>\<open>JSON.parse\<close> throws), and also when the read itself is rejected, the state it
  returns is the default state: theme mode "system", subjects Physics, Chemistry, Math,
  notification time null.
\<close>

theorem loadSettingsFromStorage_defaults:
  "(\<exists>state. loadSettingsFromStorage pf = Inr state) \<and>
   (getItem pf STORAGE_KEYS_SETTINGS = Inr None \<longrightarrow>
      loadSettingsFromStorage pf = Inr defaultState) \<and>
   (\<forall>json err. getItem pf STORAGE_KEYS_SETTINGS = Inr (Some json) \<and> JSON_parse pf json = Inl err \<longrightarrow>
      loadSettingsFromStorage pf = Inr defaultState) \<and>
   (\<forall>err. getItem pf STORAGE_KEYS_SETTINGS = Inl err \<longrightarrow>
      loadSettingsFromStorage pf = Inr defaultState) \<and>
   defaultState =
     \<lparr>themeMode = JStr ''system'',
      subjects = [JStr ''Physics'', JStr ''Chemistry'', JStr ''Math''],
      notificationTime = JNull\<rparr>"
proof -
  have none: "loadSettingsFromStorage pf = Inr defaultState"
    if "getItem pf STORAGE_KEYS_SETTINGS = Inr None"
    using that
    by (simp add: loadSettingsFromStorage_def loadSettingsFromStorage_try_def get_def prop_of_def
        defaultState_def)
  have corrupt: "loadSettingsFromStorage pf = Inr defaultState"
    if "getItem pf STORAGE_KEYS_SETTINGS = Inr (Some json)" "JSON_parse pf json = Inl err"
    for json err
    using that
    by (simp add: loadSettingsFromStorage_def loadSettingsFromStorage_try_def get_def prop_of_def
        defaultState_def)
  have rejected: "loadSettingsFromStorage pf = Inr defaultState"
    if "getItem pf STORAGE_KEYS_SETTINGS = Inl err" for err
    using that
    by (simp add: loadSettingsFromStorage_def loadSettingsFromStorage_try_def)
  show ?thesis
    using loadSettingsFromStorage_returns[of pf] none corrupt rejected
    by (simp add: defaultState_def)
qed

theorem loadSettingsFromStorage_defaults_witness:
  "loadSettingsFromStorage ex_platform_empty = Inr defaultState \<and>
   loadSettingsFromStorage ex_platform_corrupt = Inr defaultState"
proof -
  have "getItem ex_platform_empty STORAGE_KEYS_SETTINGS = Inr None"
    by (simp add: ex_platform_empty_def)
  moreover have "getItem ex_platform_corrupt STORAGE_KEYS_SETTINGS = Inr (Some ''not-a-valid-json'') \<and>
      JSON_parse ex_platform_corrupt ''not-a-valid-json'' = Inl SyntaxError"
    by (simp add: ex_platform_corrupt_def)
  ultimately show ?thesis
    using loadSettingsFromStorage_defaults[of ex_platform_empty]
      loadSettingsFromStorage_defaults[of ex_platform_corrupt]
    by blast
qed

section \<open>The import flow\<close>

lemma new_tasks_filter:
  "filter (\<lambda>t. validTask t \<and> \<not> Set_has ids (field t ''id'')) items =
   filter (\<lambda>t. validTask t \<and> field t ''id'' \<notin> set ids) items"
  by (rule filter_cong) (auto simp: validTask_fresh)

lemma field_defined: "field v k \<noteq> JUndefined \<Longrightarrow> v \<noteq> JNull \<and> v \<noteq> JUndefined"
  by (cases v) simp_all

lemma typeof_object: "typeof v = ''object'' \<Longrightarrow> v \<noteq> JUndefined"
  by (cases v) simp_all

lemma mergeTasks_filter_valid:
  "mergeTasks state (filter validTask items) = mergeTasks state items"
  by (simp add: mergeTasks_def)

lemma import_failed_store [simp]: "store (import_failed pf err app) = store app"
  by (simp add: import_failed_def)

lemma import_failed_button:
  "alertType (button (import_failed pf err app)) = alert_error \<and>
   alertTitle (button (import_failed pf err app)) = ''Import Failed'' \<and>
   alertMessage (button (import_failed pf err app)) \<noteq> [] \<and>
   modalVisible (button (import_failed pf err app))"
  by (simp add: import_failed_def showAlert_def)

lemma handleImport_nothing_new:
  assumes "\<not> canceled result" "assets result = Some (uri # others)"
    and "readAsStringAsync pf uri = Inr content" "JSON_parse pf content = Inr parsed"
    and "field parsed ''tasks'' = JArr items"
    and "typeof (field parsed ''settings'') = ''object''" "field parsed ''settings'' \<noteq> JNull"
    and "filter (\<lambda>t. validTask t \<and> field t ''id'' \<notin> set (task_ids (tasks (todo (store app))))) items = []"
  shows "handleImport pf result app =
           app\<lparr>button := showAlert alert_warning ''Nothing to Import''
                            ''No new tasks found to merge.'' (button app)\<rparr>"
proof -
  have nn: "parsed \<noteq> JNull" "parsed \<noteq> JUndefined"
    using field_defined[of parsed "''tasks''"] assms(5) by simp_all
  show ?thesis
    using assms nn
    by (simp add: handleImport_def get_def Let_def new_tasks_filter task_ids_def[symmetric])
qed

lemma handleImport_merged:
  assumes "\<not> canceled result" "assets result = Some (uri # others)"
    and "readAsStringAsync pf uri = Inr content" "JSON_parse pf content = Inr parsed"
    and "field parsed ''tasks'' = JArr items"
    and "typeof (field parsed ''settings'') = ''object''" "field parsed ''settings'' \<noteq> JNull"
    and "filter (\<lambda>t. validTask t \<and> field t ''id'' \<notin> set (task_ids (tasks (todo (store app))))) items \<noteq> []"
  shows "\<exists>settings'. mergeSettings (settings (store app)) (field parsed ''settings'') = Inr settings' \<and>
           handleImport pf result app =
             \<lparr>store = \<lparr>todo = mergeTasks (todo (store app)) items, settings = settings'\<rparr>,
              button = showAlert alert_success ''Import Successful''
                 (decimal (length (filter (\<lambda>t. validTask t \<and>
                     field t ''id'' \<notin> set (task_ids (tasks (todo (store app))))) items))
                  @ '' new tasks merged.'') (button app)\<rparr>"
proof -
  have nn: "parsed \<noteq> JNull" "parsed \<noteq> JUndefined"
    using field_defined[of parsed "''tasks''"] assms(5) by simp_all
  obtain settings' where m: "mergeSettings (settings (store app)) (field parsed ''settings'') = Inr settings'"
    using mergeSettings_returns[OF assms(7) typeof_object[OF assms(6)]] by blast
  have "handleImport pf result app =
             \<lparr>store = \<lparr>todo = mergeTasks (todo (store app)) items, settings = settings'\<rparr>,
              button = showAlert alert_success ''Import Successful''
                 (decimal (length (filter (\<lambda>t. validTask t \<and>
                     field t ''id'' \<notin> set (task_ids (tasks (todo (store app))))) items))
                  @ '' new tasks merged.'') (button app)\<rparr>"
    using assms nn m
    by (simp add: handleImport_def get_def Let_def new_tasks_filter task_ids_def[symmetric]
        mergeTasks_filter_valid)
  with m show ?thesis by blast
qed

text \<open>
  What the validation of handleImport does reject. When the picked file is read but its
  content is not valid JSON, or parses to null, or has a \<^verbatim>\<open>tasks\<close> property that is not an
  array, or a \<^verbatim>\<open>settings\<close> property whose \<^verbatim>\<open>typeof\<close> is not "object" or that is null, the
  import shows an error alert with a non-empty message and leaves the store (tasks and
  settings) as it was.
\<close>

lemma handleImport_rejects:
  assumes "\<not> canceled result" "assets result = Some (uri # others)"
    and "readAsStringAsync pf uri = Inr content"
    and "JSON_parse pf content = Inl err \<or>
         (\<exists>parsed. JSON_parse pf content = Inr parsed \<and>
            (parsed = JNull \<or> \<not> isArray (field parsed ''tasks'') \<or>
             typeof (field parsed ''settings'') \<noteq> ''object'' \<or>
             field parsed ''settings'' = JNull))"
  shows "store (handleImport pf result app) = store app \<and>
         modalVisible (button (handleImport pf result app)) \<and>
         alertType (button (handleImport pf result app)) = alert_error \<and>
         alertTitle (button (handleImport pf result app)) = ''Import Failed'' \<and>
         alertMessage (button (handleImport pf result app)) \<noteq> []"
proof -
  from assms(4) consider
      (malformed) "JSON_parse pf content = Inl err"
    | (no_tasks) parsed where "JSON_parse pf content = Inr parsed"
        "parsed = JNull \<or> \<not> isArray (field parsed ''tasks'')"
    | (no_settings) parsed where "JSON_parse pf content = Inr parsed"
        "parsed \<noteq> JNull" "isArray (field parsed ''tasks'')"
        "typeof (field parsed ''settings'') \<noteq> ''object'' \<or> field parsed ''settings'' = JNull"
    by blast
  then have "\<exists>e. handleImport pf result app = import_failed pf e app"
  proof cases
    case malformed
    with assms(1-3) show ?thesis by (auto simp: handleImport_def)
  next
    case no_tasks
    with assms(1-3) show ?thesis by (auto simp: handleImport_def get_def)
  next
    case no_settings
    from no_settings(3) have "parsed \<noteq> JUndefined" by (cases parsed) simp_all
    with no_settings assms(1-3) show ?thesis by (auto simp: handleImport_def get_def)
  qed
  then obtain e where "handleImport pf result app = import_failed pf e app" ..
  then show ?thesis
    using import_failed_button[of pf e app] by simp
qed

text \<open>Two rejected imports: a file that is not JSON, and a backup whose settings property
  is null. Both leave the store alone and show the error alert.\<close>

lemma handleImport_rejects_example:
  "store (handleImport ex_platform_corrupt ex_picked ex_app) = store ex_app \<and>
   alertType (button (handleImport ex_platform_corrupt ex_picked ex_app)) = alert_error \<and>
   alertMessage (button (handleImport ex_platform_corrupt ex_picked ex_app)) = ''Unexpected token'' \<and>
   store (handleImport (ex_platform ex_backup_settings_null) ex_picked ex_app) = store ex_app \<and>
   alertType (button (handleImport (ex_platform ex_backup_settings_null) ex_picked ex_app)) =
     alert_error \<and>
   alertMessage (button (handleImport (ex_platform ex_backup_settings_null) ex_picked ex_app)) =
     ''Invalid format: 'settings' object missing.''"
proof -
  have a: "handleImport ex_platform_corrupt ex_picked ex_app =
      import_failed ex_platform_corrupt SyntaxError ex_app"
    by (simp add: handleImport_def ex_platform_corrupt_def ex_picked_def)
  have b: "handleImport (ex_platform ex_backup_settings_null) ex_picked ex_app =
      import_failed (ex_platform ex_backup_settings_null)
        (Error ''Invalid format: 'settings' object missing.'') ex_app"
    by (simp add: handleImport_def ex_platform_def ex_picked_def ex_backup_settings_null_def
        get_def prop_of_def)
  show ?thesis
    unfolding a b
    by (simp add: import_failed_def showAlert_def err_message_def ex_platform_corrupt_def)
qed

text \<open>
  C8. For a backup that passes the validation (its tasks property is an array and its
  settings property passes the object check): when every valid task of the backup carries
  an identifier that is already in the current task collection, the import leaves the
  store unchanged, so it adds no task, and shows the warning "Nothing to Import"; when
  some valid task carries a fresh identifier, the import shows the success alert "Import
  Successful" and the task list has grown. The alert is the warning exactly when no valid
  task is new, so the two outcomes are reported differently.
\<close>

theorem import_nothing_to_import:
  assumes "\<not> canceled result" "assets result = Some (uri # others)"
    and "readAsStringAsync pf uri = Inr content" "JSON_parse pf content = Inr parsed"
    and "field parsed ''tasks'' = JArr items"
    and "typeof (field parsed ''settings'') = ''object''" "field parsed ''settings'' \<noteq> JNull"
  shows "((\<forall>t\<in>set items. validTask t \<longrightarrow>
             field t ''id'' \<in> set (task_ids (tasks (todo (store app))))) \<longrightarrow>
            store (handleImport pf result app) = store app \<and>
            button (handleImport pf result app) =
              showAlert alert_warning ''Nothing to Import'' ''No new tasks found to merge.''
                (button app)) \<and>
         ((\<exists>t\<in>set items. validTask t \<and>
             field t ''id'' \<notin> set (task_ids (tasks (todo (store app))))) \<longrightarrow>
            alertType (button (handleImport pf result app)) = alert_success \<and>
            alertTitle (button (handleImport pf result app)) = ''Import Successful'' \<and>
            length (tasks (todo (store app))) <
              length (tasks (todo (store (handleImport pf result app))))) \<and>
         (alertType (button (handleImport pf result app)) = alert_warning \<longleftrightarrow>
            (\<forall>t\<in>set items. validTask t \<longrightarrow>
               field t ''id'' \<in> set (task_ids (tasks (todo (store app))))))"
proof -
  let ?new = "filter (\<lambda>t. validTask t \<and>
                 field t ''id'' \<notin> set (task_ids (tasks (todo (store app))))) items"
  have empty: "?new = [] \<longleftrightarrow>
      (\<forall>t\<in>set items. validTask t \<longrightarrow> field t ''id'' \<in> set (task_ids (tasks (todo (store app)))))"
    by (auto simp: filter_empty_conv)
  show ?thesis
  proof (cases "?new = []")
    case True
    have h: "handleImport pf result app =
           app\<lparr>button := showAlert alert_warning ''Nothing to Import''
                            ''No new tasks found to merge.'' (button app)\<rparr>"
      by (rule handleImport_nothing_new[OF assms True])
    have "store (handleImport pf result app) = store app"
      "button (handleImport pf result app) =
         showAlert alert_warning ''Nothing to Import'' ''No new tasks found to merge.'' (button app)"
      "alertType (button (handleImport pf result app)) = alert_warning"
      by (simp_all add: h showAlert_def)
    with True empty show ?thesis by blast
  next
    case False
    from handleImport_merged[OF assms False]
    obtain settings' where
      h: "handleImport pf result app =
             \<lparr>store = \<lparr>todo = mergeTasks (todo (store app)) items, settings = settings'\<rparr>,
              button = showAlert alert_success ''Import Successful''
                 (decimal (length ?new) @ '' new tasks merged.'') (button app)\<rparr>"
      by blast
    have "length (tasks (todo (store app))) < length (tasks (mergeTasks (todo (store app)) items))"
      using False by (simp add: mergeTasks_tasks)
    then have "length (tasks (todo (store app))) <
        length (tasks (todo (store (handleImport pf result app))))"
      "alertType (button (handleImport pf result app)) = alert_success"
      "alertTitle (button (handleImport pf result app)) = ''Import Successful''"
      "alertType (button (handleImport pf result app)) \<noteq> alert_warning"
      by (simp_all add: h showAlert_def)
    with False empty show ?thesis by blast
  qed
qed

text \<open>Facts about the example values.\<close>

lemma ex_picked_file:
  "\<not> canceled ex_picked" "assets ex_picked = Some (''file:///backup.json'' # [])"
  "readAsStringAsync (ex_platform v) ''file:///backup.json'' = Inr ''backup text''"
  "JSON_parse (ex_platform v) ''backup text'' = Inr v"
  by (simp_all add: ex_picked_def ex_platform_def)

lemma ex_items:
  "validTask ex_item_a" "validTask ex_item_c" "\<not> validTask JNull"
  "field ex_item_a ''id'' = JStr ''a''" "field ex_item_c ''id'' = JStr ''c''"
  "task_ids (tasks (todo (store ex_app))) = [JStr ''a'', JStr ''b'']"
  by (simp_all add: validTask_def ex_item_a_def ex_item_c_def prop_of_def
      ex_app_def ex_todo_def ex_task_a_def ex_task_b_def task_ids_def)

lemma ex_backup_known_shape:
  "field ex_backup_known ''tasks'' = JArr [ex_item_a, JNull]"
  "typeof (field ex_backup_known ''settings'') = ''object''"
  "field ex_backup_known ''settings'' \<noteq> JNull"
  "field ex_backup_known ''settings'' = JObj ex_incoming"
  by (simp_all add: ex_backup_known_def prop_of_def)

lemma ex_backup_new_shape:
  "field ex_backup_new ''tasks'' = JArr [ex_item_a, ex_item_c]"
  "typeof (field ex_backup_new ''settings'') = ''object''"
  "field ex_backup_new ''settings'' \<noteq> JNull"
  by (simp_all add: ex_backup_new_def prop_of_def)

theorem import_nothing_to_import_witness:
  "store (handleImport (ex_platform ex_backup_known) ex_picked ex_app) = store ex_app \<and>
   alertType (button (handleImport (ex_platform ex_backup_known) ex_picked ex_app)) = alert_warning \<and>
   alertTitle (button (handleImport (ex_platform ex_backup_known) ex_picked ex_app)) = ''Nothing to Import'' \<and>
   alertType (button (handleImport (ex_platform ex_backup_new) ex_picked ex_app)) = alert_success \<and>
   alertTitle (button (handleImport (ex_platform ex_backup_new) ex_picked ex_app)) = ''Import Successful''"
proof -
  have known: "\<forall>t\<in>set [ex_item_a, JNull]. validTask t \<longrightarrow>
      field t ''id'' \<in> set (task_ids (tasks (todo (store ex_app))))"
    by (simp add: ex_items)
  have new: "\<exists>t\<in>set [ex_item_a, ex_item_c]. validTask t \<and>
      field t ''id'' \<notin> set (task_ids (tasks (todo (store ex_app))))"
    by (simp add: ex_items)
  note k = import_nothing_to_import[OF ex_picked_file ex_backup_known_shape(1,2,3), of ex_app]
  note n = import_nothing_to_import[OF ex_picked_file ex_backup_new_shape, of ex_app]
  note k1 = k[THEN conjunct1, THEN mp, OF known]
  note n1 = n[THEN conjunct2, THEN conjunct1, THEN mp, OF new]
  show ?thesis
    using k1 n1 by (simp add: showAlert_def)
qed

text \<open>
  C10. When a backup that passes the validation yields no new task (every valid task's
  identifier is already in the current collection), handleImport returns after showing
  the warning, before any dispatch: the settings state (theme, subjects, notification
  time) is the one from before the import, whatever the settings object of the backup
  holds, and so is the task state.
\<close>

theorem import_nothing_new_keeps_settings:
  assumes "\<not> canceled result" "assets result = Some (uri # others)"
    and "readAsStringAsync pf uri = Inr content" "JSON_parse pf content = Inr parsed"
    and "field parsed ''tasks'' = JArr items"
    and "typeof (field parsed ''settings'') = ''object''" "field parsed ''settings'' \<noteq> JNull"
    and "\<forall>t\<in>set items. validTask t \<longrightarrow>
           field t ''id'' \<in> set (task_ids (tasks (todo (store app))))"
  shows "settings (store (handleImport pf result app)) = settings (store app) \<and>
         todo (store (handleImport pf result app)) = todo (store app) \<and>
         handleImport pf result app =
           app\<lparr>button := showAlert alert_warning ''Nothing to Import''
                            ''No new tasks found to merge.'' (button app)\<rparr>"
proof -
  have "filter (\<lambda>t. validTask t \<and>
          field t ''id'' \<notin> set (task_ids (tasks (todo (store app))))) items = []"
    using assms(8) by (auto simp: filter_empty_conv)
  from handleImport_nothing_new[OF assms(1-7) this] show ?thesis by simp
qed

theorem import_nothing_new_keeps_settings_witness:
  "settings (store (handleImport (ex_platform ex_backup_known) ex_picked ex_app)) = ex_settings \<and>
   field ex_backup_known ''settings'' = JObj ex_incoming \<and>
   mergeSettings ex_settings (JObj ex_incoming) \<noteq> Inr ex_settings"
proof -
  have known: "\<forall>t\<in>set [ex_item_a, JNull]. validTask t \<longrightarrow>
      field t ''id'' \<in> set (task_ids (tasks (todo (store ex_app))))"
    by (simp add: ex_items)
  have "mergeSettings ex_settings (JObj ex_incoming) \<noteq> Inr ex_settings"
    by (simp add: mergeSettings_object ex_incoming_def ex_settings_def prop_of_def)
  then show ?thesis
    using import_nothing_new_keeps_settings[OF ex_picked_file ex_backup_known_shape(1,2,3) known]
      ex_backup_known_shape(4)
    by (simp add: ex_app_def)
qed

lemma decimal_1: "decimal (Suc 0) = ''1''"
  by code_simp

text \<open>
  C4. An import whose backup is malformed JSON, or whose tasks property is not an array,
  or whose settings property is not an object, shows an error and changes neither the
  tasks nor the settings. The code does this for the cases of \<open>handleImport_rejects\<close>,
  but its object check, \<^verbatim>\<open>typeof parsed.settings !== "object" || parsed.settings === null\<close>,
  lets an array through: on the backup whose tasks are the one new task c and whose
  settings property is the empty array, the import reports success and the task list has
  grown from a, b to a, b, c.
\<close>

theorem handleImport_accepts_settings_array:
  "field ex_backup_settings_array ''settings'' = JArr [] \<and>
   tasks (todo (store ex_app)) = [ex_task_a, ex_task_b] \<and>
   settings (store ex_app) = ex_settings \<and>
   handleImport (ex_platform ex_backup_settings_array) ex_picked ex_app =
     \<lparr>store = \<lparr>todo = \<lparr>tasks = [ex_task_a, ex_task_b, properties ex_item_c]\<rparr>,
               settings = ex_settings\<rparr>,
      button = \<lparr>modalVisible = True, alertTitle = ''Import Successful'',
                alertMessage = ''1 new tasks merged.'', alertType = alert_success\<rparr>\<rparr>"
proof -
  have shape: "field ex_backup_settings_array ''tasks'' = JArr [ex_item_c]"
    "typeof (field ex_backup_settings_array ''settings'') = ''object''"
    "field ex_backup_settings_array ''settings'' \<noteq> JNull"
    "field ex_backup_settings_array ''settings'' = JArr []"
    by (simp_all add: ex_backup_settings_array_def prop_of_def)
  have new: "filter (\<lambda>t. validTask t \<and>
       field t ''id'' \<notin> set (task_ids (tasks (todo (store ex_app))))) [ex_item_c] = [ex_item_c]"
    by (simp add: ex_items)
  have m: "mergeSettings ex_settings (JArr []) = Inr ex_settings"
    by (simp add: mergeSettings_def)
  have t: "mergeTasks ex_todo [ex_item_c] = \<lparr>tasks = [ex_task_a, ex_task_b, properties ex_item_c]\<rparr>"
    using mergeTasks_tasks[of ex_todo "[ex_item_c]"] new
    by (simp add: ex_app_def ex_todo_def mergeTasks_def)
  have s: "store ex_app = \<lparr>todo = ex_todo, settings = ex_settings\<rparr>" "button ex_app = ex_button"
    by (simp_all add: ex_app_def)
  have ne: "filter (\<lambda>t. validTask t \<and>
       field t ''id'' \<notin> set (task_ids (tasks (todo (store ex_app))))) [ex_item_c] \<noteq> []"
    unfolding new by simp
  from handleImport_merged[OF ex_picked_file shape(1,2,3) ne]
  obtain settings' where
    a: "mergeSettings (settings (store ex_app)) (field ex_backup_settings_array ''settings'') =
          Inr settings'"
    and b: "handleImport (ex_platform ex_backup_settings_array) ex_picked ex_app =
             \<lparr>store = \<lparr>todo = mergeTasks (todo (store ex_app)) [ex_item_c], settings = settings'\<rparr>,
              button = showAlert alert_success ''Import Successful''
                 (decimal (length (filter (\<lambda>t. validTask t \<and>
                     field t ''id'' \<notin> set (task_ids (tasks (todo (store ex_app))))) [ex_item_c]))
                  @ '' new tasks merged.'') (button ex_app)\<rparr>"
    by blast
  from a have c: "settings' = ex_settings"
    unfolding shape(4) by (simp add: s m)
  have "handleImport (ex_platform ex_backup_settings_array) ex_picked ex_app =
     \<lparr>store = \<lparr>todo = \<lparr>tasks = [ex_task_a, ex_task_b, properties ex_item_c]\<rparr>,
               settings = ex_settings\<rparr>,
      button = \<lparr>modalVisible = True, alertTitle = ''Import Successful'',
                alertMessage = ''1 new tasks merged.'', alertType = alert_success\<rparr>\<rparr>"
    unfolding b new c by (simp add: s t decimal_1 showAlert_def ex_button_def)
  then show ?thesis
    by (simp add: shape(4) s) (simp add: ex_todo_def)
qed

theorem handleImport_accepts_settings_array_witness:
  "tasks (todo (store (handleImport (ex_platform ex_backup_settings_array) ex_picked ex_app))) \<noteq>
     tasks (todo (store ex_app)) \<and>
   alertType (button (handleImport (ex_platform ex_backup_settings_array) ex_picked ex_app)) \<noteq>
     alert_error"
  using handleImport_accepts_settings_array by simp

end
